theory Spec2Isabelle
  imports Main "HOL-Library.Sublist" "HOL-Library.Multiset"
begin

section \<open>Platform values shared by the two handlers\<close>

text \<open>
  Both handlers are async functions from a request environment to a \<open>Response\<close>. A
  rejected promise or a thrown \<open>Error\<close> is the left summand of a sum type, carrying the
  message of the error. The services a handler talks to are recorded in a trace of events,
  in the order the calls are issued.
\<close>

datatype js_error = JsError string

record response =
  resp_status :: nat
  resp_headers :: "(string \<times> string) list"
  resp_body :: string

text \<open>
  \<open>KvPut key value ttl\<close>: the third component is the number given as
  \<open>expirationTtl\<close>; the type \<open>'n\<close> stands for the numbers of JavaScript.
  \<open>ListJobs owner repo run_id\<close>.
\<close>

datatype 'n event =
    KvGet string
  | KvPut string string 'n
  | LinearFetch
  | GhSearch string
  | ListRuns string string
  | ListJobs string string int



fun is_search :: "'n event \<Rightarrow> bool" where
  "is_search (GhSearch _) = True"
| "is_search _ = False"



text \<open>
  The key-value binding \<open>GH_CACHE\<close>: the entries that have not expired (\<open>get\<close> answers
  \<open>null\<close> for a key that is absent or expired), and what the service does with a call:
  \<open>kv_get_rejects key\<close> is the error with which \<open>get(key)\<close> rejects, if it rejects,
  \<open>kv_put_rejects key value ttl\<close> the error with which
  \<open>put(key, value, {expirationTtl: ttl})\<close> rejects, if it rejects.
\<close>

type_synonym kv = "string \<rightharpoonup> string"

record 'n kv_binding =
  kv_entries :: kv
  kv_get_rejects :: "string \<Rightarrow> js_error option"
  kv_put_rejects :: "string \<Rightarrow> string \<Rightarrow> 'n \<Rightarrow> js_error option"

text \<open>JavaScript truthiness of a possibly absent string: absent and empty are falsy.\<close>

fun truthy :: "string option \<Rightarrow> bool" where
  "truthy None = False"
| "truthy (Some s) = (s \<noteq> [])"

text \<open>\<open>env.X || d\<close> for a string-valued setting.\<close>

fun or_default :: "string option \<Rightarrow> string \<Rightarrow> string" where
  "or_default None d = d"
| "or_default (Some s) d = (if s = [] then d else s)"

text \<open>Decimal text of a natural number, as a template literal prints a status code.\<close>

function string_of_nat :: "nat \<Rightarrow> string" where
  "string_of_nat n =
     (if n < 10 then [''0123456789'' ! n]
      else string_of_nat (n div 10) @ [''0123456789'' ! (n mod 10)])"
  by pat_completeness auto
termination
  by (relation "measure id") auto

declare string_of_nat.simps [simp del]

section \<open>Issue Aggregator (part_000)\<close>

subsection \<open>Data\<close>

text \<open>
  The sub-objects of an issue have the same shape upstream and in the response, so one
  record serves both. Field names recur between the types of the two handlers, hence the
  prefixes.
\<close>

record state_obj =
  st_name :: string
  st_type :: string
  st_color :: string

record priority_obj =
  prio_value :: int
  prio_name :: string

record project_obj =
  proj_name :: string
  proj_icon :: "string option"
  proj_color :: string

record assignee_obj =
  asg_name :: string
  asg_avatarUrl :: "string option"

record team_obj =
  team_name :: string
  team_key :: string

text \<open>A node of \<open>result.data.issues.nodes\<close>; \<open>priority\<close> may be null or undefined.\<close>

record linear_node =
  node_id :: string
  node_identifier :: string
  node_title :: string
  node_url :: string
  node_createdAt :: string
  node_updatedAt :: string
  node_priority :: "int option"
  node_state :: state_obj
  node_project :: "project_obj option"
  node_assignee :: "assignee_obj option"
  node_team :: team_obj

record LinearIssue =
  issue_id :: string
  issue_identifier :: string
  issue_title :: string
  issue_url :: string
  issue_status :: state_obj
  issue_priority :: "priority_obj option"
  issue_project :: "project_obj option"
  issue_assignee :: "assignee_obj option"
  issue_createdAt :: string
  issue_updatedAt :: string
  issue_team :: team_obj

subsection \<open>Normalisation of a node\<close>

definition priority_names :: "string list" where
  "priority_names = [''No priority'', ''Urgent'', ''High'', ''Normal'', ''Low'']"

text \<open>Indexing a JavaScript array: \<open>undefined\<close> outside the range.\<close>

definition js_index :: "'a list \<Rightarrow> int \<Rightarrow> 'a option" where
  "js_index xs i = (if 0 \<le> i \<and> i < int (length xs) then Some (xs ! nat i) else None)"

definition priority_name :: "int \<Rightarrow> string" where
  "priority_name p =
     (if truthy (js_index priority_names p) then the (js_index priority_names p)
      else ''Unknown'')"

definition to_priority :: "int option \<Rightarrow> priority_obj option" where
  "to_priority p =
     (case p of
        None \<Rightarrow> None
      | Some v \<Rightarrow> Some \<lparr>prio_value = v, prio_name = priority_name v\<rparr>)"

definition to_issue :: "linear_node \<Rightarrow> LinearIssue" where
  "to_issue issue =
     \<lparr>issue_id = node_id issue,
      issue_identifier = node_identifier issue,
      issue_title = node_title issue,
      issue_url = node_url issue,
      issue_status =
        \<lparr>st_name = st_name (node_state issue),
         st_type = st_type (node_state issue),
         st_color = st_color (node_state issue)\<rparr>,
      issue_priority = to_priority (node_priority issue),
      issue_project =
        (case node_project issue of
           None \<Rightarrow> None
         | Some p \<Rightarrow>
             Some \<lparr>proj_name = proj_name p, proj_icon = proj_icon p, proj_color = proj_color p\<rparr>),
      issue_assignee =
        (case node_assignee issue of
           None \<Rightarrow> None
         | Some a \<Rightarrow> Some \<lparr>asg_name = asg_name a, asg_avatarUrl = asg_avatarUrl a\<rparr>),
      issue_createdAt = node_createdAt issue,
      issue_updatedAt = node_updatedAt issue,
      issue_team =
        \<lparr>team_name = team_name (node_team issue), team_key = team_key (node_team issue)\<rparr>\<rparr>"

subsection \<open>The sort\<close>

text \<open>
  \<open>a.priority?.value ?? 999\<close>, then 0 replaced by 999.
\<close>

definition sort_rank :: "LinearIssue \<Rightarrow> int" where
  "sort_rank a =
     (let aPriority = (case issue_priority a of None \<Rightarrow> 999 | Some p \<Rightarrow> prio_value p)
      in if aPriority = 0 then 999 else aPriority)"

text \<open>
  The comparator of \<open>issues.sort\<close>. \<open>getTime\<close> stands for
  \<open>new Date(s).getTime()\<close>: the milliseconds of the parsed text, or \<open>None\<close> for
  \<open>NaN\<close> when the text is not a date. A difference with a \<open>NaN\<close> operand is
  \<open>NaN\<close>.
\<close>

definition compare_issues ::
  "(string \<Rightarrow> int option) \<Rightarrow> LinearIssue \<Rightarrow> LinearIssue \<Rightarrow> int option" where
  "compare_issues getTime a b =
     (let aSort = sort_rank a; bSort = sort_rank b
      in if aSort \<noteq> bSort then Some (aSort - bSort)
         else (case (getTime (issue_updatedAt b), getTime (issue_updatedAt a)) of
                 (Some tb, Some ta) \<Rightarrow> Some (tb - ta)
               | _ \<Rightarrow> None))"

text \<open>
  \<open>Array.prototype.sort\<close> is a built-in: it is stable, and it reads a \<open>NaN\<close> from the
  comparator as \<open>+0\<close>. It is modelled by a stable insertion sort that moves an element
  behind another only when the comparator is positive.
\<close>

definition comes_after :: "int option \<Rightarrow> bool" where
  "comes_after v = (case v of None \<Rightarrow> False | Some d \<Rightarrow> 0 < d)"

fun insert_by :: "('a \<Rightarrow> 'a \<Rightarrow> int option) \<Rightarrow> 'a \<Rightarrow> 'a list \<Rightarrow> 'a list" where
  "insert_by cmp x [] = [x]"
| "insert_by cmp x (y # ys) =
     (if comes_after (cmp x y) then y # insert_by cmp x ys else x # y # ys)"

fun array_sort :: "('a \<Rightarrow> 'a \<Rightarrow> int option) \<Rightarrow> 'a list \<Rightarrow> 'a list" where
  "array_sort cmp [] = []"
| "array_sort cmp (x # xs) = insert_by cmp x (array_sort cmp xs)"

definition sorted_issues :: "(string \<Rightarrow> int option) \<Rightarrow> linear_node list \<Rightarrow> LinearIssue list" where
  "sorted_issues getTime nodes = array_sort (compare_issues getTime) (map to_issue nodes)"

subsection \<open>The handler\<close>

text \<open>
  \<open>LINEAR_TOKEN\<close> and \<open>LINEAR_CACHE_TTL\<close> are read from \<open>env\<close>
  (\<open>runtime?.env || import.meta.env\<close>); the cache binding is read from
  \<open>runtime?.env?.GH_CACHE\<close> and is \<open>None\<close> when there is no binding.
\<close>

record 'n linear_env =
  LINEAR_TOKEN :: "string option"
  LINEAR_CACHE_TTL :: "string option"
  runtime_GH_CACHE :: "'n kv_binding option"

text \<open>
  What the one call to the issue tracker comes back with: \<open>Thrown m\<close> when \<open>fetch\<close>,
  \<open>response.json()\<close> or the reading of \<open>result.data.issues.nodes\<close> throws with message
  \<open>m\<close>; \<open>NotOk st\<close> when \<open>response.ok\<close> is false; \<open>GraphQLErrors e\<close> when
  \<open>result.errors\<close> is truthy, \<open>e\<close> being \<open>JSON.stringify(result.errors)\<close>.
\<close>

datatype linear_reply =
    Thrown string
  | NotOk nat
  | GraphQLErrors string
  | Nodes "linear_node list"

section \<open>PR Aggregator (part_001): data\<close>

datatype rollup_state =
  SUCCESS | FAILURE | PENDING | ERROR | EXPECTED | ACTION_REQUIRED | TIMED_OUT

record repo_obj =
  repo_owner :: string
  repo_name :: string
  repo_url :: string

record author_obj =
  author_login :: string
  author_avatarUrl :: string
  author_url :: string

record label_obj =
  label_name :: string
  label_color :: string

text \<open>The two kinds of check: \<open>CheckRun name status conclusion detailsUrl\<close> and
  \<open>StatusContext name state targetUrl\<close>.\<close>

datatype check_obj =
    CheckRun "string option" "string option" "string option" "string option"
  | StatusContext "string option" "string option" "string option"

record status_obj =
  rollup :: "rollup_state option"
  checks :: "check_obj list"

record job_obj =
  job_name :: string
  job_status :: string
  job_conclusion :: "string option"
  job_started_at :: "string option"
  job_html_url :: string

record PRBasic =
  pr_id :: string
  pr_number :: int
  pr_title :: string
  pr_url :: string
  pr_repo :: repo_obj
  pr_author :: "author_obj option"
  pr_updatedAt :: string
  pr_createdAt :: string
  pr_isDraft :: bool
  pr_labels :: "label_obj list"
  pr_headSha :: "string option"
  pr_status :: status_obj
  pr_jobs :: "job_obj list option"

text \<open>A node of the search result, as the GraphQL query shapes it.\<close>

record raw_context =
  ctx_typename :: string
  ctx_name :: "string option"
  ctx_status :: "string option"
  ctx_conclusion :: "string option"
  ctx_detailsUrl :: "string option"
  ctx_context :: "string option"
  ctx_state :: "string option"
  ctx_targetUrl :: "string option"

record raw_rollup =
  rr_state :: "rollup_state option"
  rr_contexts :: "raw_context list option"

record raw_commit =
  rc_oid :: "string option"
  rc_statusCheckRollup :: "raw_rollup option"

text \<open>\<open>raw_commit0\<close> is \<open>pr.commits?.nodes?.[0]?.commit\<close>, \<open>raw_labels\<close> is
  \<open>pr.labels?.nodes\<close>.\<close>

record raw_pr =
  raw_id :: string
  raw_number :: int
  raw_title :: string
  raw_url :: string
  raw_createdAt :: string
  raw_updatedAt :: string
  raw_isDraft :: bool
  raw_repository :: repo_obj
  raw_author :: "author_obj option"
  raw_labels :: "label_obj list option"
  raw_commit0 :: "raw_commit option"

record run_obj =
  run_id :: int
  run_head_sha :: string
  run_pull_requests :: "int list option"

record rest_job =
  rj_name :: string
  rj_status :: "string option"
  rj_conclusion :: "string option"
  rj_started_at :: "string option"
  rj_html_url :: string

text \<open>What one scope entry contributes: \<open>{ mine, review, assigned }\<close>, of objects or of
  their addresses.\<close>

record 'a scope_result =
  res_mine :: "'a list"
  res_review :: "'a list"
  res_assigned :: "'a list"

record buckets_obj =
  review :: "PRBasic list"
  mine :: "PRBasic list"
  assigned :: "PRBasic list"

record overview =
  generatedAt :: string
  scopeOrgs :: "string list"
  buckets :: buckets_obj

record 'n Env =
  GITHUB_TOKEN :: "string option"
  GH_QUERY_ORGS :: "string option"
  GH_PINNED_REPOS :: "string option"
  GH_CACHE :: "'n kv_binding option"
  GH_CACHE_TTL :: "string option"

section \<open>Response bodies\<close>

text \<open>
  The values handed to \<open>JSON.stringify\<close>: \<open>{error}\<close>, \<open>{error, details}\<close>,
  \<open>{generatedAt, issues}\<close>, the overview object, and \<open>JSON.parse(text)\<close> of a cached
  text.
\<close>

datatype json_data =
    ErrorObj string
  | ErrorDetailsObj string string
  | IssuesObj string "LinearIssue list"
  | OverviewObj overview
  | ParsedObj string

section \<open>Built-ins and upstream services\<close>

text \<open>
  The built-ins of the platform that the handlers call are parameters, collected in one
  record: \<open>JSON.stringify\<close>; \<open>JSON_parse_error text\<close>, the \<open>SyntaxError\<close> that
  \<open>JSON.parse(text)\<close> throws, if it throws; \<open>Date_getTime text\<close>, that is
  \<open>new Date(text).getTime()\<close>, with \<open>None\<close> for \<open>NaN\<close>; \<open>Number\<close> on a text;
  \<open>now_iso\<close>, what \<open>new Date().toISOString()\<close> answers during the request.

  Two more parameters stand for the timing of concurrent promises. \<open>race es\<close> names,
  of the rejections \<open>es\<close> of the promises handed to one \<open>Promise.all\<close>, the one that
  settled first. \<open>settle_order evs\<close> puts calls that are issued as earlier responses
  come back into the order in which they are issued.
\<close>

record 'n platform =
  JSON_stringify :: "json_data \<Rightarrow> string"
  JSON_parse_error :: "string \<Rightarrow> js_error option"
  Date_getTime :: "string \<Rightarrow> int option"
  Number_of :: "string \<Rightarrow> 'n"
  now_iso :: string
  race :: "js_error list \<Rightarrow> js_error"
  settle_order :: "'n event list \<Rightarrow> 'n event list"

text \<open>
  The code-hosting service, as the client library presents it: \<open>gh_search q\<close> is how
  \<open>octokit.graphql\<close> settles for the query text \<open>q\<close> (the rejection, or
  \<open>res.search.nodes ?? []\<close>); \<open>gh_listRuns owner repo\<close> and
  \<open>gh_listJobs owner repo run_id\<close> are how \<open>octokit.paginate\<close> settles for the two
  REST listings (the rejection, or all the pages).
\<close>

record github =
  gh_search :: "string \<Rightarrow> js_error + raw_pr list"
  gh_listRuns :: "string \<Rightarrow> string \<Rightarrow> js_error + run_obj list"
  gh_listJobs :: "string \<Rightarrow> string \<Rightarrow> int \<Rightarrow> js_error + rest_job list"

text \<open>\<open>Map.prototype.set\<close> on the entries in insertion order: an existing key keeps its
  place and takes the new value, a new key goes to the end. Spreading an object into an
  object literal assigns its keys the same way.\<close>

fun map_set :: "('k \<times> 'v) list \<Rightarrow> 'k \<Rightarrow> 'v \<Rightarrow> ('k \<times> 'v) list" where
  "map_set [] k v = [(k, v)]"
| "map_set ((k', v') # m) k v = (if k' = k then (k, v) # m else (k', v') # map_set m k v)"

definition new_Map :: "('k \<times> 'v) list \<Rightarrow> ('k \<times> 'v) list" where
  "new_Map entries = foldl (\<lambda>m (k, v). map_set m k v) [] entries"

definition spread :: "('k \<times> 'v) list \<Rightarrow> ('k \<times> 'v) list \<Rightarrow> ('k \<times> 'v) list" where
  "spread base extra = foldl (\<lambda>m (k, v). map_set m k v) base extra"

definition okJSON ::
  "(json_data \<Rightarrow> string) \<Rightarrow> json_data \<Rightarrow> (string \<times> string) list \<Rightarrow> nat option \<Rightarrow> response" where
  "okJSON stringify data init_headers init_status =
     \<lparr>resp_status = (case init_status of None \<Rightarrow> 200 | Some s \<Rightarrow> s),
      resp_headers = spread [(''content-type'', ''application/json; charset=utf-8'')] init_headers,
      resp_body = stringify data\<rparr>"

section \<open>Issue Aggregator: \<open>GET\<close>\<close>

text \<open>
  \<open>await GH_CACHE.get(key)\<close> behind \<open>if (GH_CACHE)\<close>: no call without a binding; with
  one, the rejection or the text found.
\<close>

definition cache_read ::
  "'n kv_binding option \<Rightarrow> string \<Rightarrow> (js_error + string option) \<times> 'n event list" where
  "cache_read cache key =
     (case cache of
        None \<Rightarrow> (Inr None, [])
      | Some b \<Rightarrow>
          (case kv_get_rejects b key of
             Some e \<Rightarrow> (Inl e, [KvGet key])
           | None \<Rightarrow> (Inr (kv_entries b key), [KvGet key])))"

text \<open>
  \<open>await GH_CACHE.put(key, val, { expirationTtl: ttl })\<close> behind \<open>if (GH_CACHE)\<close>:
  the rejection, or the binding with the entry stored.
\<close>

definition cache_write ::
  "'n kv_binding option \<Rightarrow> string \<Rightarrow> string \<Rightarrow> 'n
     \<Rightarrow> (js_error + 'n kv_binding option) \<times> 'n event list" where
  "cache_write cache key val ttl =
     (case cache of
        None \<Rightarrow> (Inr None, [])
      | Some b \<Rightarrow>
          (case kv_put_rejects b key val ttl of
             Some e \<Rightarrow> (Inl e, [KvPut key val ttl])
           | None \<Rightarrow>
               (Inr (Some (b\<lparr>kv_entries := (kv_entries b)(key \<mapsto> val)\<rparr>)),
                [KvPut key val ttl])))"

text \<open>The part of the \<open>try\<close> block up to the nodes: every \<open>throw\<close> is a left value.\<close>

definition linear_nodes :: "linear_reply \<Rightarrow> js_error + linear_node list" where
  "linear_nodes reply =
     (case reply of
        Thrown m \<Rightarrow> Inl (JsError m)
      | NotOk st \<Rightarrow> Inl (JsError (''Linear API error: '' @ string_of_nat st))
      | GraphQLErrors e \<Rightarrow> Inl (JsError (''Linear GraphQL errors: '' @ e))
      | Nodes ns \<Rightarrow> Inr ns)"

definition json_headers :: "(string \<times> string) list" where
  "json_headers = [(''content-type'', ''application/json'')]"

text \<open>
  The \<open>try\<close> block, after a cache miss: a rejected \<open>put\<close> is thrown inside it like
  the failures of the fetch.
\<close>

definition GET_try ::
  "'n platform \<Rightarrow> 'n linear_env \<Rightarrow> linear_reply
     \<Rightarrow> (js_error + response) \<times> 'n event list \<times> 'n kv_binding option" where
  "GET_try pf env reply =
     (let ttl = Number_of pf (or_default (LINEAR_CACHE_TTL env) ''90'');
          cacheKey = ''linear:recent-issues''
      in case linear_nodes reply of
           Inl e \<Rightarrow> (Inl e, [LinearFetch], runtime_GH_CACHE env)
         | Inr nodes \<Rightarrow>
             (let issues = sorted_issues (Date_getTime pf) nodes;
                  jsonData = JSON_stringify pf (IssuesObj (now_iso pf) issues)
              in case cache_write (runtime_GH_CACHE env) cacheKey jsonData ttl of
                   (Inl e, puts) \<Rightarrow> (Inl e, [LinearFetch] @ puts, runtime_GH_CACHE env)
                 | (Inr cache', puts) \<Rightarrow>
                     (Inr \<lparr>resp_status = 200,
                           resp_headers = json_headers @ [(''x-cache'', ''MISS'')],
                           resp_body = jsonData\<rparr>,
                      [LinearFetch] @ puts, cache')))"

text \<open>
  The handler: the token check, the cache read (before the \<open>try\<close>: its rejection
  leaves the handler), then the \<open>try\<close> block with its \<open>catch\<close>.
\<close>

definition GET ::
  "'n platform \<Rightarrow> 'n linear_env \<Rightarrow> linear_reply
     \<Rightarrow> (js_error + response) \<times> 'n event list \<times> 'n kv_binding option" where
  "GET pf env reply =
     (if \<not> truthy (LINEAR_TOKEN env) then
        (Inr \<lparr>resp_status = 500, resp_headers = json_headers,
              resp_body = JSON_stringify pf (ErrorObj ''Missing LINEAR_TOKEN'')\<rparr>,
         [], runtime_GH_CACHE env)
      else
        (case cache_read (runtime_GH_CACHE env) ''linear:recent-issues'' of
           (Inl e, gets) \<Rightarrow> (Inl e, gets, runtime_GH_CACHE env)
         | (Inr cached, gets) \<Rightarrow>
             if truthy cached then
               (Inr \<lparr>resp_status = 200,
                     resp_headers = json_headers @ [(''x-cache'', ''HIT'')],
                     resp_body = the cached\<rparr>,
                gets, runtime_GH_CACHE env)
             else
               (case GET_try pf env reply of
                  (Inl (JsError m), evs, cache') \<Rightarrow>
                    (Inr \<lparr>resp_status = 500, resp_headers = json_headers,
                          resp_body =
                            JSON_stringify pf
                              (ErrorDetailsObj ''Failed to fetch Linear issues'' m)\<rparr>,
                     gets @ evs, cache')
                | (Inr r, evs, cache') \<Rightarrow> (Inr r, gets @ evs, cache'))))"

section \<open>PR Aggregator: \<open>onRequest\<close>\<close>

subsection \<open>Scope and cache key\<close>

text \<open>\<open>split(",")\<close>: the pieces between the commas, one piece for a text without comma.\<close>

fun split_comma :: "string \<Rightarrow> string list" where
  "split_comma [] = [[]]"
| "split_comma (c # cs) =
     (if c = CHR '','' then [] # split_comma cs
      else (case split_comma cs of
              [] \<Rightarrow> [[c]]
            | w # ws \<Rightarrow> (c # w) # ws))"

text \<open>
  \<open>trim\<close> strips white space and line terminators at both ends. A \<open>char\<close> is one code
  unit below 256 here, so the set is tab, line feed, vertical tab, form feed, carriage
  return, space and no-break space.
\<close>

definition is_space :: "char \<Rightarrow> bool" where
  "is_space c = (c \<in> set [CHR 0x09, CHR 0x0A, CHR 0x0B, CHR 0x0C, CHR 0x0D, CHR 0x20, CHR 0xA0])"

definition trim :: "string \<Rightarrow> string" where
  "trim s = rev (dropWhile is_space (rev (dropWhile is_space s)))"

definition scopeOrgs_of :: "string option \<Rightarrow> string list" where
  "scopeOrgs_of orgs = filter (\<lambda>s. s \<noteq> []) (map trim (split_comma (or_default orgs [])))"

fun join :: "string \<Rightarrow> string list \<Rightarrow> string" where
  "join sep [] = []"
| "join sep [x] = x"
| "join sep (x # y # ys) = x @ sep @ join sep (y # ys)"

definition cacheKey_of :: "string list \<Rightarrow> string" where
  "cacheKey_of orgs = ''overview:'' @ (if join '','' orgs = [] then ''all'' else join '','' orgs)"

subsection \<open>Search queries\<close>

record queries =
  q_mine :: string
  q_review :: string
  q_assigned :: string

definition buildQueries :: "string option \<Rightarrow> queries" where
  "buildQueries org =
     (let orgFilter = (if truthy org then '' org:'' @ the org else [])
      in \<lparr>q_mine = ''is:pr is:open author:@me sort:updated-desc'' @ orgFilter,
          q_review = ''is:pr is:open review-requested:@me sort:updated-desc'' @ orgFilter,
          q_assigned = ''is:pr is:open assignee:@me sort:updated-desc'' @ orgFilter\<rparr>)"

definition orgsToQuery :: "string list \<Rightarrow> string option list" where
  "orgsToQuery orgs = (if length orgs > 0 then map Some orgs else [None])"

subsection \<open>\<open>fetchBucket\<close>\<close>

definition to_check :: "raw_context \<Rightarrow> check_obj" where
  "to_check c =
     (if ctx_typename c = ''CheckRun''
      then CheckRun (ctx_name c) (ctx_status c) (ctx_conclusion c) (ctx_detailsUrl c)
      else StatusContext (ctx_context c) (ctx_state c) (ctx_targetUrl c))"

definition to_pr :: "raw_pr \<Rightarrow> PRBasic" where
  "to_pr pr =
     (let commit = raw_commit0 pr;
          roll = (case commit of None \<Rightarrow> None | Some c \<Rightarrow> rc_statusCheckRollup c);
          contexts = (case roll of None \<Rightarrow> [] | Some r \<Rightarrow>
                        (case rr_contexts r of None \<Rightarrow> [] | Some cs \<Rightarrow> cs))
      in \<lparr>pr_id = raw_id pr,
          pr_number = raw_number pr,
          pr_title = raw_title pr,
          pr_url = raw_url pr,
          pr_repo =
            \<lparr>repo_owner = repo_owner (raw_repository pr),
             repo_name = repo_name (raw_repository pr),
             repo_url = repo_url (raw_repository pr)\<rparr>,
          pr_author =
            (case raw_author pr of
               None \<Rightarrow> None
             | Some a \<Rightarrow>
                 Some \<lparr>author_login = author_login a, author_avatarUrl = author_avatarUrl a,
                       author_url = author_url a\<rparr>),
          pr_updatedAt = raw_updatedAt pr,
          pr_createdAt = raw_createdAt pr,
          pr_isDraft = raw_isDraft pr,
          pr_labels =
            map (\<lambda>l. \<lparr>label_name = label_name l, label_color = label_color l\<rparr>)
              (case raw_labels pr of None \<Rightarrow> [] | Some ls \<Rightarrow> ls),
          pr_headSha = (case commit of None \<Rightarrow> None | Some c \<Rightarrow> rc_oid c),
          pr_status =
            \<lparr>rollup = (case roll of None \<Rightarrow> None | Some r \<Rightarrow> rr_state r),
             checks = map to_check contexts\<rparr>,
          pr_jobs = None\<rparr>)"

definition fetchBucket :: "github \<Rightarrow> string \<Rightarrow> js_error + PRBasic list" where
  "fetchBucket gh q =
     (case gh_search gh q of Inl e \<Rightarrow> Inl e | Inr nodes \<Rightarrow> Inr (map to_pr nodes))"

text \<open>
  \<open>Promise.all\<close>: all the promises have been started; the result is the list of the
  values, or the rejection that settled first, which \<open>race\<close> names. (A \<open>race\<close> that
  names none of the rejections is read as naming the first in list order.)
\<close>

definition rejections :: "(js_error + 'a) list \<Rightarrow> js_error list" where
  "rejections ps = List.map_filter (\<lambda>p. case p of Inl e \<Rightarrow> Some e | Inr v \<Rightarrow> None) ps"

definition fulfilled :: "(js_error + 'a) list \<Rightarrow> 'a list" where
  "fulfilled ps = List.map_filter (\<lambda>p. case p of Inl e \<Rightarrow> None | Inr v \<Rightarrow> Some v) ps"

definition first_settled :: "(js_error list \<Rightarrow> js_error) \<Rightarrow> js_error list \<Rightarrow> js_error" where
  "first_settled rc es = (if rc es \<in> set es then rc es else hd es)"

definition promise_all ::
  "(js_error list \<Rightarrow> js_error) \<Rightarrow> (js_error + 'a) list \<Rightarrow> js_error + 'a list" where
  "promise_all rc ps =
     (if rejections ps = [] then Inr (fulfilled ps)
      else Inl (first_settled rc (rejections ps)))"

text \<open>
  The async function mapped over \<open>orgsToQuery\<close>: the three searches of one scope entry,
  destructured into \<open>{ mine, review, assigned }\<close>, and the calls issued. The three
  calls are issued before the function first waits.
\<close>

definition fetch_scope ::
  "'n platform \<Rightarrow> github \<Rightarrow> string option
     \<Rightarrow> (js_error + PRBasic scope_result) \<times> 'n event list" where
  "fetch_scope pf gh org =
     (let qs = buildQueries org
      in (case promise_all (race pf)
                 [fetchBucket gh (q_mine qs), fetchBucket gh (q_review qs),
                  fetchBucket gh (q_assigned qs)] of
            Inl e \<Rightarrow> Inl e
          | Inr vs \<Rightarrow> Inr \<lparr>res_mine = vs ! 0, res_review = vs ! 1, res_assigned = vs ! 2\<rparr>,
          [GhSearch (q_mine qs), GhSearch (q_review qs), GhSearch (q_assigned qs)]))"

definition fetch_all ::
  "'n platform \<Rightarrow> github \<Rightarrow> string option list
     \<Rightarrow> (js_error + PRBasic scope_result list) \<times> 'n event list" where
  "fetch_all pf gh orgs =
     (promise_all (race pf) (map (\<lambda>org. fst (fetch_scope pf gh org)) orgs),
      concat (map (\<lambda>org. snd (fetch_scope pf gh org)) orgs))"

subsection \<open>The store of PR objects\<close>

text \<open>
  \<open>attachJobs\<close> assigns \<open>pr.jobs\<close> on objects that the bucket arrays also hold, so the
  objects live in a store and the arrays hold addresses. Every object that
  \<open>fetchBucket\<close> creates is a new one: \<open>alloc\<close> appends it to the store.
\<close>

type_synonym store = "PRBasic list"

definition alloc :: "store \<Rightarrow> PRBasic list \<Rightarrow> store \<times> nat list" where
  "alloc h ps = (h @ ps, [length h ..< length h + length ps])"

fun alloc_results :: "store \<Rightarrow> PRBasic scope_result list \<Rightarrow> store \<times> nat scope_result list" where
  "alloc_results h [] = (h, [])"
| "alloc_results h (r # rs) =
     (let (h1, ms) = alloc h (res_mine r);
          (h2, rvs) = alloc h1 (res_review r);
          (h3, as) = alloc h2 (res_assigned r);
          (h', out) = alloc_results h3 rs
      in (h', \<lparr>res_mine = ms, res_review = rvs, res_assigned = as\<rparr> # out))"

text \<open>
  \<open>Array.from(new Map(prs.map(pr => [pr.id, pr])).values())\<close>, on addresses.
\<close>

definition dedup :: "store \<Rightarrow> nat list \<Rightarrow> nat list" where
  "dedup h refs = map snd (new_Map (map (\<lambda>r. (pr_id (h ! r), r)) refs))"

subsection \<open>Enrichment\<close>

definition is_pending :: "PRBasic \<Rightarrow> bool" where
  "is_pending p = (rollup (pr_status p) = Some PENDING)"

definition running :: "store \<Rightarrow> nat list \<Rightarrow> nat list \<Rightarrow> nat list \<Rightarrow> nat list" where
  "running h mine_refs review_refs assigned_refs =
     take 8 (filter (\<lambda>r. is_pending (h ! r)) (mine_refs @ review_refs @ assigned_refs))"

definition to_job :: "rest_job \<Rightarrow> job_obj" where
  "to_job j =
     \<lparr>job_name = rj_name j,
      job_status = (case rj_status j of None \<Rightarrow> ''queued'' | Some s \<Rightarrow> s),
      job_conclusion = rj_conclusion j,
      job_started_at = rj_started_at j,
      job_html_url = rj_html_url j\<rparr>"

definition run_matches :: "PRBasic \<Rightarrow> run_obj \<Rightarrow> bool" where
  "run_matches pr r =
     (Some (run_head_sha r) = pr_headSha pr \<or>
      (case run_pull_requests r of None \<Rightarrow> False | Some ns \<Rightarrow> pr_number pr \<in> set ns))"

text \<open>
  \<open>attachJobs\<close> on the object at address \<open>r\<close>: how it settles (the rejection, or
  the store after it), the call it issues before it first waits, and the call it issues
  once the run listing has come back.
\<close>

definition attachJobs ::
  "github \<Rightarrow> store \<Rightarrow> nat \<Rightarrow> (js_error + store) \<times> 'n event list \<times> 'n event list" where
  "attachJobs gh h r =
     (let pr = h ! r
      in if \<not> truthy (pr_headSha pr) then (Inr h, [], [])
         else
           (let owner = repo_owner (pr_repo pr); name = repo_name (pr_repo pr)
            in case gh_listRuns gh owner name of
                 Inl e \<Rightarrow> (Inl e, [ListRuns owner name], [])
               | Inr runs \<Rightarrow>
                   (case find (run_matches pr) runs of
                      None \<Rightarrow> (Inr h, [ListRuns owner name], [])
                    | Some run \<Rightarrow>
                        (case gh_listJobs gh owner name (run_id run) of
                           Inl e \<Rightarrow>
                             (Inl e, [ListRuns owner name], [ListJobs owner name (run_id run)])
                         | Inr jobs \<Rightarrow>
                             (Inr (h[r := pr\<lparr>pr_jobs := Some (map to_job jobs)\<rparr>]),
                              [ListRuns owner name], [ListJobs owner name (run_id run)])))))"

text \<open>
  \<open>running.map(attachJobs)\<close>: every candidate's \<open>attachJobs\<close> is started, whatever
  becomes of the others. The result is the store after all of them, their rejections, the
  run listings in the order of the candidates, and the job listings.
\<close>

fun attach_each ::
  "github \<Rightarrow> store \<Rightarrow> nat list \<Rightarrow> store \<times> js_error list \<times> 'n event list \<times> 'n event list" where
  "attach_each gh h [] = (h, [], [], [])"
| "attach_each gh h (r # rs) =
     (case attachJobs gh h r of
        (Inl e, runs, jobs) \<Rightarrow>
          (case attach_each gh h rs of
             (h', es, runs', jobs') \<Rightarrow> (h', e # es, runs @ runs', jobs @ jobs'))
      | (Inr h1, runs, jobs) \<Rightarrow>
          (case attach_each gh h1 rs of
             (h', es, runs', jobs') \<Rightarrow> (h', es, runs @ runs', jobs @ jobs')))"

text \<open>
  The job listings are issued as the run listings come back: \<open>settle_order\<close> gives
  their order. (A \<open>settle_order\<close> that does not permute the calls is read as the order
  of the candidates.)
\<close>

definition in_settle_order :: "('e list \<Rightarrow> 'e list) \<Rightarrow> 'e list \<Rightarrow> 'e list" where
  "in_settle_order ord evs = (if mset (ord evs) = mset evs then ord evs else evs)"

text \<open>
  \<open>await Promise.all(running.map(attachJobs))\<close>: the store after the candidates, or the
  rejection that settled first; the run listings, then the job listings.
\<close>

definition attach_all ::
  "'n platform \<Rightarrow> github \<Rightarrow> store \<Rightarrow> nat list \<Rightarrow> (js_error + store) \<times> 'n event list" where
  "attach_all pf gh h rs =
     (case attach_each gh h rs of
        (h', es, runs, jobs) \<Rightarrow>
          (if es = [] then Inr h' else Inl (first_settled (race pf) es),
           runs @ in_settle_order (settle_order pf) jobs))"

subsection \<open>The handler\<close>

text \<open>
  The path after a cache miss, up to the data of the response. Nothing in
  \<open>onRequest\<close> catches: a rejection leaves the handler.
\<close>

definition overview_data ::
  "'n platform \<Rightarrow> github \<Rightarrow> string list \<Rightarrow> (js_error + overview) \<times> 'n event list" where
  "overview_data pf gh orgs =
     (case fetch_all pf gh (orgsToQuery orgs) of
        (Inl e, evs) \<Rightarrow> (Inl e, evs)
      | (Inr fetched, evs) \<Rightarrow>
          (let (h, allResults) = alloc_results [] fetched;
               mine_refs = dedup h (concat (map res_mine allResults));
               review_refs = dedup h (concat (map res_review allResults));
               assigned_refs = dedup h (concat (map res_assigned allResults))
           in case attach_all pf gh h (running h mine_refs review_refs assigned_refs) of
                (Inl e, evs') \<Rightarrow> (Inl e, evs @ evs')
              | (Inr h', evs') \<Rightarrow>
                  (Inr \<lparr>generatedAt = now_iso pf, scopeOrgs = orgs,
                        buckets =
                          \<lparr>review = map (\<lambda>r. h' ! r) review_refs,
                           mine = map (\<lambda>r. h' ! r) mine_refs,
                           assigned = map (\<lambda>r. h' ! r) assigned_refs\<rparr>\<rparr>,
                   evs @ evs')))"

text \<open>
  The handler: the token check, the cache read, on a hit \<open>JSON.parse\<close> of the cached
  text, on a miss the data and the cache write. None of the awaits is inside a \<open>try\<close>.
\<close>

definition onRequest ::
  "'n platform \<Rightarrow> github \<Rightarrow> 'n Env
     \<Rightarrow> (js_error + response) \<times> 'n event list \<times> 'n kv_binding option" where
  "onRequest pf gh env =
     (if \<not> truthy (GITHUB_TOKEN env) then
        (Inr \<lparr>resp_status = 500, resp_headers = [], resp_body = ''Missing GITHUB_TOKEN''\<rparr>,
         [], GH_CACHE env)
      else
        (let orgs = scopeOrgs_of (GH_QUERY_ORGS env);
             ttl = Number_of pf (or_default (GH_CACHE_TTL env) ''90'');
             cacheKey = cacheKey_of orgs
         in case cache_read (GH_CACHE env) cacheKey of
              (Inl e, gets) \<Rightarrow> (Inl e, gets, GH_CACHE env)
            | (Inr cached, gets) \<Rightarrow>
                if truthy cached then
                  (case JSON_parse_error pf (the cached) of
                     Some e \<Rightarrow> (Inl e, gets, GH_CACHE env)
                   | None \<Rightarrow>
                       (Inr (okJSON (JSON_stringify pf) (ParsedObj (the cached))
                               [(''x-cache'', ''HIT'')] None),
                        gets, GH_CACHE env))
                else
                  (case overview_data pf gh orgs of
                     (Inl e, evs) \<Rightarrow> (Inl e, gets @ evs, GH_CACHE env)
                   | (Inr data, evs) \<Rightarrow>
                       (case cache_write (GH_CACHE env) cacheKey
                               (JSON_stringify pf (OverviewObj data)) ttl of
                          (Inl e, puts) \<Rightarrow> (Inl e, gets @ evs @ puts, GH_CACHE env)
                        | (Inr cache', puts) \<Rightarrow>
                            (Inr (okJSON (JSON_stringify pf) (OverviewObj data)
                                    [(''x-cache'', ''MISS'')] None),
                             gets @ evs @ puts, cache')))))"

section \<open>Predicates of the proofs, and example inputs\<close>


text \<open>Two stores that hold the same objects but for the \<open>jobs\<close> fields.\<close>

definition same_but_jobs :: "store \<Rightarrow> store \<Rightarrow> bool" where
  "same_but_jobs h h' =
     (length h' = length h \<and> (\<forall>r. (h' ! r)\<lparr>pr_jobs := None\<rparr> = (h ! r)\<lparr>pr_jobs := None\<rparr>))"

text \<open>No object of the store has jobs without a head commit.\<close>

definition jobs_need_sha :: "store \<Rightarrow> bool" where
  "jobs_need_sha h = list_all (\<lambda>p. pr_headSha p \<noteq> None \<or> pr_jobs p = None) h"

definition no_jobs :: "PRBasic scope_result \<Rightarrow> bool" where
  "no_jobs sr = list_all (\<lambda>p. pr_jobs p = None) (res_mine sr @ res_review sr @ res_assigned sr)"

definition refs_below :: "nat \<Rightarrow> nat scope_result \<Rightarrow> bool" where
  "refs_below n sr = list_all (\<lambda>x. x < n) (res_mine sr @ res_review sr @ res_assigned sr)"

definition comma_free :: "string \<Rightarrow> bool" where
  "comma_free w = (CHR '','' \<notin> set w)"



definition runs_call :: "PRBasic \<Rightarrow> 'n event" where
  "runs_call p = ListRuns (repo_owner (pr_repo p)) (repo_name (pr_repo p))"

text \<open>
  The candidates of the enrichment, read off the buckets of a response: the first eight
  pending objects of mine, review, assigned, in this order.
\<close>

definition candidates :: "buckets_obj \<Rightarrow> PRBasic list" where
  "candidates b = take 8 (filter is_pending (mine b @ review b @ assigned b))"

text \<open>
  Instances of the built-ins for the examples: a \<open>JSON.stringify\<close> that prints the keys
  of the items only, a \<open>JSON.parse\<close> that accepts texts opening with a brace, a date
  parser that knows three instants, \<open>Number\<close> on decimal digits (any other text gives
  \<open>NaN\<close>, here \<open>None\<close>).
\<close>

fun ex_stringify :: "json_data \<Rightarrow> string" where
  "ex_stringify (ErrorObj e) = ''{error:'' @ e @ ''}''"
| "ex_stringify (ErrorDetailsObj e d) = ''{error:'' @ e @ '',details:'' @ d @ ''}''"
| "ex_stringify (IssuesObj t is) =
     ''{generatedAt:'' @ t @ '',issues:['' @ join '','' (map issue_identifier is) @ '']}''"
| "ex_stringify (OverviewObj d) =
     ''{generatedAt:'' @ generatedAt d @ '',scopeOrgs:['' @ join '','' (scopeOrgs d)
       @ ''],buckets:{review:['' @ join '','' (map pr_id (review (buckets d)))
       @ ''],mine:['' @ join '','' (map pr_id (mine (buckets d)))
       @ ''],assigned:['' @ join '','' (map pr_id (assigned (buckets d))) @ '']}}''"
| "ex_stringify (ParsedObj s) = s"

definition ex_parse_error :: "string \<Rightarrow> js_error option" where
  "ex_parse_error s =
     (if s \<noteq> [] \<and> hd s = CHR ''{'' then None else Some (JsError ''Unexpected token''))"

definition ex_getTime :: "string \<Rightarrow> int option" where
  "ex_getTime s =
     map_of [(''2024-05-01T10:00:00.000Z'', 1714557600000),
             (''2024-05-02T10:00:00.000Z'', 1714644000000),
             (''2024-05-03T10:00:00.000Z'', 1714730400000)] s"

definition ex_Number :: "string \<Rightarrow> int option" where
  "ex_Number s =
     (if s \<noteq> [] \<and> list_all (\<lambda>c. c \<in> set ''0123456789'') s
      then Some (foldl (\<lambda>n c. 10 * n + (of_char c - 48)) 0 s) else None)"

definition ex_platform :: "int option platform" where
  "ex_platform =
     \<lparr>JSON_stringify = ex_stringify, JSON_parse_error = ex_parse_error,
      Date_getTime = ex_getTime, Number_of = ex_Number,
      now_iso = ''2024-05-04T00:00:00.000Z'', race = hd, settle_order = rev\<rparr>"

text \<open>
  A binding that holds the given entries and rejects a \<open>put\<close> whose time to live is
  not a number of at least 60; and a binding that is out of service.
\<close>

definition ex_kv :: "kv \<Rightarrow> int option kv_binding" where
  "ex_kv entries =
     \<lparr>kv_entries = entries, kv_get_rejects = (\<lambda>k. None),
      kv_put_rejects =
        (\<lambda>k v ttl. case ttl of
             None \<Rightarrow> Some (JsError ''Invalid expiration_ttl'')
           | Some n \<Rightarrow> if n < 60 then Some (JsError ''Invalid expiration_ttl'') else None)\<rparr>"


definition ex_cache :: kv where
  "ex_cache =
     [''linear:recent-issues'' \<mapsto> ''{generatedAt:2024-05-03T23:59:00.000Z,issues:[ENG-1]}'',
      ''overview:acme,beta'' \<mapsto> ''{generatedAt:2024-05-03T23:59:00.000Z}'',
      ''overview:all'' \<mapsto> ''{generatedAt:2024-05-03T23:59:00.000Z,scopeOrgs:[]}'']"


definition ex_node :: "string \<Rightarrow> int option \<Rightarrow> string \<Rightarrow> linear_node" where
  "ex_node key prio updated =
     \<lparr>node_id = ''id-'' @ key, node_identifier = key, node_title = ''Title of '' @ key,
      node_url = ''https://linear.app/issue/'' @ key,
      node_createdAt = ''2024-05-01T10:00:00.000Z'', node_updatedAt = updated,
      node_priority = prio,
      node_state = \<lparr>st_name = ''Todo'', st_type = ''unstarted'', st_color = ''#aaa''\<rparr>,
      node_project = None, node_assignee = None,
      node_team = \<lparr>team_name = ''Core'', team_key = ''ENG''\<rparr>\<rparr>"

definition ex_nodes :: "linear_node list" where
  "ex_nodes =
     [ex_node ''ENG-3'' (Some 2) ''2024-05-01T10:00:00.000Z'',
      ex_node ''ENG-2'' (Some 0) ''2024-05-03T10:00:00.000Z'',
      ex_node ''ENG-1'' (Some 2) ''2024-05-02T10:00:00.000Z'',
      ex_node ''ENG-4'' None ''2024-05-02T10:00:00.000Z'']"


definition ex_linear_env :: "string option \<Rightarrow> string option \<Rightarrow> int option kv_binding option \<Rightarrow> int option linear_env" where
  "ex_linear_env token ttl cache =
     \<lparr>LINEAR_TOKEN = token, LINEAR_CACHE_TTL = ttl, runtime_GH_CACHE = cache\<rparr>"

definition ex_Env :: "string option \<Rightarrow> string option \<Rightarrow> int option kv_binding option \<Rightarrow> int option Env" where
  "ex_Env token orgs cache =
     \<lparr>GITHUB_TOKEN = token, GH_QUERY_ORGS = orgs, GH_PINNED_REPOS = None,
      GH_CACHE = cache, GH_CACHE_TTL = Some ''120''\<rparr>"

definition ex_pr :: "string \<Rightarrow> int \<Rightarrow> string \<Rightarrow> string \<Rightarrow> string option \<Rightarrow> rollup_state option \<Rightarrow> PRBasic" where
  "ex_pr ident num owner name sha roll =
     \<lparr>pr_id = ident, pr_number = num, pr_title = ''Change '' @ ident,
      pr_url = ''https://github.com/'' @ owner @ ''/'' @ name,
      pr_repo = \<lparr>repo_owner = owner, repo_name = name,
                  repo_url = ''https://github.com/'' @ owner @ ''/'' @ name\<rparr>,
      pr_author = None,
      pr_updatedAt = ''2024-05-02T10:00:00Z'', pr_createdAt = ''2024-05-01T10:00:00Z'',
      pr_isDraft = False, pr_labels = [], pr_headSha = sha,
      pr_status = \<lparr>rollup = roll, checks = []\<rparr>, pr_jobs = None\<rparr>"

definition ex_raw :: "string \<Rightarrow> int \<Rightarrow> string \<Rightarrow> string \<Rightarrow> string option \<Rightarrow> rollup_state option \<Rightarrow> raw_pr" where
  "ex_raw ident num owner name sha roll =
     \<lparr>raw_id = ident, raw_number = num, raw_title = ''Change '' @ ident,
      raw_url = ''https://github.com/'' @ owner @ ''/'' @ name,
      raw_createdAt = ''2024-05-01T10:00:00Z'', raw_updatedAt = ''2024-05-02T10:00:00Z'',
      raw_isDraft = False,
      raw_repository = \<lparr>repo_owner = owner, repo_name = name,
                         repo_url = ''https://github.com/'' @ owner @ ''/'' @ name\<rparr>,
      raw_author = None, raw_labels = None,
      raw_commit0 = Some \<lparr>rc_oid = sha,
                           rc_statusCheckRollup = Some \<lparr>rr_state = roll, rr_contexts = None\<rparr>\<rparr>\<rparr>"

text \<open>
  A service where PR_5 is found by the mine search of both scopes and by the review
  search of the first, PR_7 has no head commit, and PR_9 has passed its checks.
\<close>

definition ex_search :: "string \<Rightarrow> js_error + raw_pr list" where
  "ex_search q =
     (if q = ''is:pr is:open author:@me sort:updated-desc org:acme'' then
        Inr [ex_raw ''PR_5'' 5 ''acme'' ''web'' (Some ''sha5'') (Some PENDING),
             ex_raw ''PR_7'' 7 ''acme'' ''api'' None (Some PENDING)]
      else if q = ''is:pr is:open review-requested:@me sort:updated-desc org:acme'' then
        Inr [ex_raw ''PR_5'' 5 ''acme'' ''web'' (Some ''sha5'') (Some PENDING)]
      else if q = ''is:pr is:open author:@me sort:updated-desc org:beta'' then
        Inr [ex_raw ''PR_9'' 9 ''beta'' ''lib'' (Some ''sha9'') (Some SUCCESS),
             ex_raw ''PR_5'' 5 ''acme'' ''web'' (Some ''sha5'') (Some PENDING)]
      else if q = ''is:pr is:open assignee:@me sort:updated-desc org:beta'' then
        Inr [ex_raw ''PR_9'' 9 ''beta'' ''lib'' (Some ''sha9'') (Some SUCCESS)]
      else Inr [])"

definition ex_listRuns :: "string \<Rightarrow> string \<Rightarrow> js_error + run_obj list" where
  "ex_listRuns owner repo =
     (if owner = ''acme'' \<and> repo = ''web'' then
        Inr [\<lparr>run_id = 99, run_head_sha = ''sha4'', run_pull_requests = Some [4]\<rparr>,
             \<lparr>run_id = 100, run_head_sha = ''sha5'', run_pull_requests = None\<rparr>]
      else Inr [])"

definition ex_listJobs :: "string \<Rightarrow> string \<Rightarrow> int \<Rightarrow> js_error + rest_job list" where
  "ex_listJobs owner repo rid =
     (if rid = 100 then
        Inr [\<lparr>rj_name = ''build'', rj_status = None, rj_conclusion = None, rj_started_at = None,
              rj_html_url = ''https://github.com/acme/web/actions/runs/100/job/1''\<rparr>]
      else Inr [])"

definition ex_github :: github where
  "ex_github = \<lparr>gh_search = ex_search, gh_listRuns = ex_listRuns, gh_listJobs = ex_listJobs\<rparr>"







text \<open>
  A store of eleven objects: eight pending ones without head commit, one that has passed,
  and two pending ones with a head commit.
\<close>

definition ex_many :: store where
  "ex_many =
     [ex_pr ''PR_10'' 10 ''acme'' ''web'' None (Some PENDING),
      ex_pr ''PR_11'' 11 ''acme'' ''web'' None (Some PENDING),
      ex_pr ''PR_12'' 12 ''acme'' ''web'' None (Some PENDING),
      ex_pr ''PR_13'' 13 ''acme'' ''web'' None (Some PENDING),
      ex_pr ''PR_14'' 14 ''acme'' ''web'' None (Some PENDING),
      ex_pr ''PR_15'' 15 ''acme'' ''web'' None (Some PENDING),
      ex_pr ''PR_16'' 16 ''acme'' ''web'' None (Some PENDING),
      ex_pr ''PR_17'' 17 ''acme'' ''web'' None (Some PENDING),
      ex_pr ''PR_18'' 18 ''acme'' ''web'' (Some ''sha18'') (Some SUCCESS),
      ex_pr ''PR_19'' 19 ''acme'' ''web'' (Some ''sha19'') (Some PENDING),
      ex_pr ''PR_20'' 20 ''acme'' ''web'' (Some ''sha20'') (Some PENDING)]"

subsection \<open>Issue Aggregator: priority names and sort order\<close>






















subsection \<open>Promises and the calls of the PR Aggregator\<close>

lemma rejections_Cons:
  "rejections (Inl e # ps) = e # rejections ps" "rejections (Inr v # ps) = rejections ps"
  "rejections [] = []"
  by (simp_all add: rejections_def map_filter_simps)

lemma fulfilled_Cons:
  "fulfilled (Inl e # ps) = fulfilled ps" "fulfilled (Inr v # ps) = v # fulfilled ps"
  "fulfilled [] = []"
  by (simp_all add: fulfilled_def map_filter_simps)

lemma rejections_empty: "rejections ps = [] \<Longrightarrow> ps = map Inr (fulfilled ps)"
proof (induction ps)
  case Nil
  then show ?case by (simp add: fulfilled_Cons)
next
  case (Cons p ps)
  then show ?case by (cases p) (simp_all add: rejections_Cons fulfilled_Cons)
qed

lemma rejections_set: "set (rejections ps) = {e. Inl e \<in> set ps}"
proof (induction ps)
  case Nil
  then show ?case by (simp add: rejections_Cons)
next
  case (Cons p ps)
  then show ?case by (cases p) (auto simp: rejections_Cons)
qed

lemma first_settled_mem: "es \<noteq> [] \<Longrightarrow> first_settled rc es \<in> set es"
  by (simp add: first_settled_def)

lemma promise_all_Inr: "promise_all rc ps = Inr vs \<Longrightarrow> ps = map Inr vs"
  using rejections_empty [of ps] by (auto simp: promise_all_def split: if_splits)

lemma promise_all_Inl: "promise_all rc ps = Inl e \<Longrightarrow> Inl e \<in> set ps"
  using first_settled_mem [of "rejections ps" rc] rejections_set [of ps]
  by (auto simp: promise_all_def split: if_splits)











lemma mset_in_settle_order: "mset (in_settle_order ord evs) = mset evs"
  by (simp add: in_settle_order_def)

lemma set_in_settle_order: "set (in_settle_order ord evs) = set evs"
  using mset_in_settle_order [of ord evs] by (rule mset_eq_setD)

lemma filter_in_settle_order:
  "list_all P evs \<Longrightarrow> filter (\<lambda>x. \<not> P x) (in_settle_order ord evs) = []"
  by (simp add: filter_empty_conv set_in_settle_order list_all_iff)













subsection \<open>The example request of the PR Aggregator\<close>







subsection \<open>Both handlers: token, cache and upstream failures\<close>

text \<open>
  C6. When the access token is not configured (absent or empty), either handler answers
  500 at once: the issue endpoint with the JSON body \<open>{error: "Missing LINEAR_TOKEN"}\<close>,
  the PR endpoint with the plain text \<open>Missing GITHUB_TOKEN\<close>. No call of any kind has
  been issued and the cache is as it was.
\<close>

theorem missing_token:
  "(\<not> truthy (LINEAR_TOKEN env) \<longrightarrow>
      GET pf env reply =
        (Inr \<lparr>resp_status = 500, resp_headers = [(''content-type'', ''application/json'')],
              resp_body = JSON_stringify pf (ErrorObj ''Missing LINEAR_TOKEN'')\<rparr>,
         [], runtime_GH_CACHE env))
   \<and> (\<not> truthy (GITHUB_TOKEN penv) \<longrightarrow>
        onRequest pf gh penv =
          (Inr \<lparr>resp_status = 500, resp_headers = [], resp_body = ''Missing GITHUB_TOKEN''\<rparr>,
           [], GH_CACHE penv))"
  by (simp add: GET_def onRequest_def json_headers_def)

theorem missing_token_witness:
  "\<not> truthy (LINEAR_TOKEN (ex_linear_env None None (Some (ex_kv ex_cache))))
   \<and> GET ex_platform (ex_linear_env None None (Some (ex_kv ex_cache))) (Nodes ex_nodes) =
        (Inr \<lparr>resp_status = 500, resp_headers = [(''content-type'', ''application/json'')],
              resp_body = ''{error:Missing LINEAR_TOKEN}''\<rparr>, [], Some (ex_kv ex_cache))
   \<and> \<not> truthy (GITHUB_TOKEN (ex_Env (Some []) (Some ''acme'') None))
   \<and> onRequest ex_platform ex_github (ex_Env (Some []) (Some ''acme'') None) =
          (Inr \<lparr>resp_status = 500, resp_headers = [], resp_body = ''Missing GITHUB_TOKEN''\<rparr>,
           [], None)"
  using missing_token [of "ex_linear_env None None (Some (ex_kv ex_cache))" ex_platform
      "Nodes ex_nodes" "ex_Env (Some []) (Some ''acme'') None" ex_github]
  by (simp add: ex_linear_env_def ex_Env_def ex_platform_def)










end
